theory Spec2Isabelle
  imports Complex_Main
begin

section \<open>JavaScript values used by the crawler\<close>

text \<open>
  Strings are \<open>string\<close> (a list of characters); the crawler only compares, slices and
  concatenates them.  Page depths, HTTP status codes and heading levels are naturals.
  The two numbers that are not integers, \<open>loadingTime\<close> and the sitemap priority, are
  exact rationals: a loading time is only compared with integer constants and rounded to
  an integer, and the priority is computed exactly and then rounded to two decimals
  (the source computes in doubles; at the depths evaluated below both give the same
  two decimals).
\<close>

definition startsWith :: "string \<Rightarrow> string \<Rightarrow> bool" where
  "startsWith s p = (take (length p) s = p)"

definition endsWith :: "string \<Rightarrow> string \<Rightarrow> bool" where
  "endsWith s p = (length p \<le> length s \<and> drop (length s - length p) s = p)"

fun str_includes :: "string \<Rightarrow> string \<Rightarrow> bool" where
  "str_includes [] p = (p = [])"
| "str_includes (c # cs) p = (startsWith (c # cs) p \<or> str_includes cs p)"

definition digitChar :: "nat \<Rightarrow> char" where
  "digitChar d = char_of (48 + d)"

function numberToString :: "nat \<Rightarrow> string" where
  "numberToString n =
     (if n < 10 then [digitChar n] else numberToString (n div 10) @ [digitChar (n mod 10)])"
  by pat_completeness auto
termination
  by (relation "measure id") auto

definition intToString :: "int \<Rightarrow> string" where
  "intToString i = (if i < 0 then CHR ''-'' # numberToString (nat (- i)) else numberToString (nat i))"

text \<open>\<open>Math.round\<close>: the nearest integer, a tie going up.\<close>

definition Math_round :: "rat \<Rightarrow> int" where
  "Math_round x = \<lfloor>x + 1 / 2\<rfloor>"

text \<open>
  \<open>Array.from(new Set(xs))\<close>: a \<open>Set\<close> keeps insertion order and refuses a value that it
  already holds.  For strings the comparison is string equality.
\<close>

definition setAdd :: "'a list \<Rightarrow> 'a \<Rightarrow> 'a list" where
  "setAdd s x = (if x \<in> set s then s else s @ [x])"

definition arrayFromSet :: "'a list \<Rightarrow> 'a list" where
  "arrayFromSet xs = foldl setAdd [] xs"

section \<open>Page records of the checker (check.ts, seo.ts)\<close>

record Headings =
  h1 :: "string list"
  h2 :: "string list"
  h3 :: "string list"
  h4 :: "string list"
  h5 :: "string list"
  h6 :: "string list"

record PageType =
  path :: string
  title :: string
  headings :: Headings
  errors :: "string list"
  warnings :: "string list"
  loadingTime :: "rat option"
  performanceScore :: "string option"

record CheckOptions =
  seo :: bool
  accessibility :: bool
  verbose :: bool
  socialMedia :: bool

definition emptyHeadings :: Headings where
  "emptyHeadings = \<lparr>h1 = [], h2 = [], h3 = [], h4 = [], h5 = [], h6 = []\<rparr>"

text \<open>\<open>headings[`h${level}`] || []\<close>: a level outside 1..6 is \<open>undefined\<close>, read as empty.\<close>

definition headingsAt :: "Headings \<Rightarrow> nat \<Rightarrow> string list" where
  "headingsAt hs level =
     (if level = 1 then h1 hs else if level = 2 then h2 hs else if level = 3 then h3 hs
      else if level = 4 then h4 hs else if level = 5 then h5 hs else if level = 6 then h6 hs
      else [])"

definition pushError :: "string \<Rightarrow> PageType \<Rightarrow> PageType" where
  "pushError msg page = page\<lparr>errors := errors page @ [msg]\<rparr>"

definition pushWarning :: "string \<Rightarrow> PageType \<Rightarrow> PageType" where
  "pushWarning msg page = page\<lparr>warnings := warnings page @ [msg]\<rparr>"

section \<open>Report aggregation (the cli action of check.ts and seo.ts)\<close>

text \<open>
  The store \<open>pages\<close> is an object used as a dictionary.  \<open>Object.values\<close> lists its own
  properties in insertion order (every key of a crawl starts with a slash, so none is an
  array index), hence an association list in insertion order.
\<close>

type_synonym 'p store = "(string \<times> 'p) list"

definition Object_values :: "'p store \<Rightarrow> 'p list" where
  "Object_values pages = map snd pages"

definition uniqueErrors :: "PageType store \<Rightarrow> string list" where
  "uniqueErrors pages =
     arrayFromSet (foldl (\<lambda>total page. total @ errors page) [] (Object_values pages))"

definition uniqueWarnings :: "PageType store \<Rightarrow> string list" where
  "uniqueWarnings pages =
     arrayFromSet (foldl (\<lambda>total page. total @ warnings page) [] (Object_values pages))"

definition totalErrors :: "PageType store \<Rightarrow> nat" where
  "totalErrors pages = foldl (\<lambda>total page. total + length (errors page)) 0 (Object_values pages)"

definition totalWarnings :: "PageType store \<Rightarrow> nat" where
  "totalWarnings pages =
     foldl (\<lambda>total page. total + length (warnings page)) 0 (Object_values pages)"

section \<open>The parsed document (the DOM interface the checks read)\<close>

text \<open>
  The HTML parser is an external collaborator; the checks only read the resulting tree.
  A node is a text node or an element with its tag name (lower case, as the parser
  delivers it), its attributes, whether the object has a \<open>style\<close> property, and its child
  nodes.  Characters are code units below 256.
\<close>

datatype node = Text string | Elem string "(string \<times> string) list" bool "node list"

fun tagName :: "node \<Rightarrow> string" where
  "tagName (Elem t as st cs) = t"
| "tagName (Text s) = []"

fun getAttribute :: "node \<Rightarrow> string \<Rightarrow> string option" where
  "getAttribute (Elem t as st cs) name = map_of as name"
| "getAttribute (Text s) name = None"

definition hasAttribute :: "node \<Rightarrow> string \<Rightarrow> bool" where
  "hasAttribute e name = (getAttribute e name \<noteq> None)"

fun isElement :: "node \<Rightarrow> bool" where
  "isElement (Elem t as st cs) = True"
| "isElement (Text s) = False"

fun children :: "node \<Rightarrow> node list" where
  "children (Elem t as st cs) = filter isElement cs"
| "children (Text s) = []"

fun textContent :: "node \<Rightarrow> string" where
  "textContent (Text s) = s"
| "textContent (Elem t as st cs) = concat (map textContent cs)"

text \<open>
  An element as a query returns it: the element together with its chain of ancestors,
  the parent first.  \<open>parentElement\<close> is the head of that chain, \<open>null\<close> at the root.
\<close>

type_synonym element = "node \<times> node list"

fun descendants :: "node list \<Rightarrow> node \<Rightarrow> element list" where
  "descendants anc (Text s) = []"
| "descendants anc (Elem t as st cs) =
     (Elem t as st cs, anc) # concat (map (descendants (Elem t as st cs # anc)) cs)"

record document =
  docTitle :: string
  documentElement :: node

text \<open>\<open>document.querySelectorAll\<close> for selectors without combinators: document order.\<close>

definition querySelectorAll :: "document \<Rightarrow> (node \<Rightarrow> bool) \<Rightarrow> element list" where
  "querySelectorAll doc sel = filter (\<lambda>el. sel (fst el)) (descendants [] (documentElement doc))"

definition isWhiteSpace :: "char \<Rightarrow> bool" where
  "isWhiteSpace c =
     (c \<in> set [char_of (9::nat), char_of (10::nat), char_of (11::nat), char_of (12::nat),
                char_of (13::nat), char_of (32::nat), char_of (160::nat)])"

definition trim :: "string \<Rightarrow> string" where
  "trim s = rev (dropWhile isWhiteSpace (rev (dropWhile isWhiteSpace s)))"

text \<open>Truthiness of a string that may be \<open>null\<close>: present and not empty.\<close>

definition truthy :: "string option \<Rightarrow> bool" where
  "truthy v = (case v of None \<Rightarrow> False | Some s \<Rightarrow> s \<noteq> [])"

section \<open>utils/html.ts\<close>

definition isHTMLElement :: "element \<Rightarrow> bool" where
  "isHTMLElement el = (case fst el of Elem t as st cs \<Rightarrow> st | Text s \<Rightarrow> False)"

definition indexOf :: "string \<Rightarrow> char \<Rightarrow> int" where
  "indexOf s c = (if c \<in> set s then int (length (takeWhile (\<lambda>x. x \<noteq> c) s)) else - 1)"

text \<open>\<open>outerHTML\<close> is the DOM's serialisation of the element, taken as a parameter.\<close>

definition getTag :: "(node \<Rightarrow> string) \<Rightarrow> element \<Rightarrow> string" where
  "getTag outerHTML el =
     (let html = outerHTML (fst el) in take (nat (indexOf html CHR ''>'' + 1)) html)"

section \<open>The accessibility check (and the same two helpers in seo.ts)\<close>

text \<open>
  \<open>hasAccessibilityContent\<close> is only ever called on elements: on the query's results and,
  in its loop, on \<open>element.children\<close>.
\<close>

fun hasAccessibilityContent :: "node \<Rightarrow> bool \<Rightarrow> bool" where
  "hasAccessibilityContent (Text s) val = False"
| "hasAccessibilityContent (Elem t as st cs) val =
     (if truthy (getAttribute (Elem t as st cs) ''aria-label'')
         \<or> trim (textContent (Elem t as st cs)) \<noteq> [] then val
      else if list_ex (\<lambda>child. hasAccessibilityContent child val) (filter isElement cs) then val
      else False)"

fun notAriaHidden :: "node \<Rightarrow> node list \<Rightarrow> bool" where
  "notAriaHidden e [] =
     (if getAttribute e ''aria-hidden'' = Some ''true'' \<or> getAttribute e ''aria-hidden'' = Some []
      then False else True)"
| "notAriaHidden e (parent # anc) =
     (if getAttribute e ''aria-hidden'' = Some ''true'' \<or> getAttribute e ''aria-hidden'' = Some []
      then False else notAriaHidden parent anc)"

definition sel_notLabelled :: "node \<Rightarrow> bool" where
  "sel_notLabelled e =
     ((tagName e = ''a'' \<and> \<not> hasAttribute e ''aria-label'')
      \<or> (getAttribute e ''role'' = Some ''button'' \<and> \<not> hasAttribute e ''aria-label'')
      \<or> (tagName e = ''button'' \<and> \<not> hasAttribute e ''aria-label''))"

definition sel_imgNoAlt :: "node \<Rightarrow> bool" where
  "sel_imgNoAlt e = (tagName e = ''img'' \<and> \<not> hasAttribute e ''alt'')"

definition sel_svgNoRoleImg :: "node \<Rightarrow> bool" where
  "sel_svgNoRoleImg e = (tagName e = ''svg'' \<and> getAttribute e ''role'' \<noteq> Some ''img'')"

definition sel_svgNoAriaLabel :: "node \<Rightarrow> bool" where
  "sel_svgNoAriaLabel e = (tagName e = ''svg'' \<and> \<not> hasAttribute e ''aria-label'')"

definition notLabelledLink :: "document \<Rightarrow> element list" where
  "notLabelledLink doc =
     filter (\<lambda>el. hasAccessibilityContent (fst el) False)
       (filter (\<lambda>el. notAriaHidden (fst el) (snd el))
         (filter isHTMLElement (querySelectorAll doc sel_notLabelled)))"

definition pushErrors :: "string list \<Rightarrow> PageType \<Rightarrow> PageType" where
  "pushErrors msgs page = foldl (\<lambda>p msg. pushError msg p) page msgs"

definition pushWarnings :: "string list \<Rightarrow> PageType \<Rightarrow> PageType" where
  "pushWarnings msgs page = foldl (\<lambda>p msg. pushWarning msg p) page msgs"

definition check_accessibility ::
  "(node \<Rightarrow> string) \<Rightarrow> CheckOptions \<Rightarrow> document \<Rightarrow> PageType \<Rightarrow> PageType" where
  "check_accessibility outerHTML options doc page =
     (if \<not> accessibility options then page
      else
        let page1 = pushErrors
              (map (\<lambda>el. ''Accessibility: Not labelled link/button: '' @ getTag outerHTML el)
                 (notLabelledLink doc)) page;
            notAltImage = filter (\<lambda>el. notAriaHidden (fst el) (snd el))
              (querySelectorAll doc sel_imgNoAlt);
            page2 = pushErrors
              (map (\<lambda>el. ''Accessibility: Image without alt: '' @ getTag outerHTML el) notAltImage)
              page1;
            notRoleImgSvg = filter (\<lambda>el. notAriaHidden (fst el) (snd el))
              (querySelectorAll doc sel_svgNoRoleImg);
            page3 = pushWarnings
              (map (\<lambda>el. ''Accessibility: SVG without role=img: '' @ getTag outerHTML el)
                 notRoleImgSvg) page2;
            notAriaLabelSvg = filter (\<lambda>el. notAriaHidden (fst el) (snd el))
              (querySelectorAll doc sel_svgNoAriaLabel)
        in pushErrors
             (map (\<lambda>el. ''Accessibility: SVG without aria-label: '' @ getTag outerHTML el)
                notAriaLabelSvg) page3)"

section \<open>The heading hierarchy check (check/heading-hierarchy.ts)\<close>

text \<open>
  The two inner loops scan the levels below a bound from 1 upwards and stop at the first
  one that has a heading.
\<close>

definition anyLevelBelow :: "Headings \<Rightarrow> nat \<Rightarrow> bool" where
  "anyLevelBelow hs bound = list_ex (\<lambda>j. length (headingsAt hs j) > 0) [1..<bound]"

definition checkLevel :: "Headings \<Rightarrow> nat \<Rightarrow> PageType \<Rightarrow> PageType" where
  "checkLevel hs currentLevel page =
     (if length (headingsAt hs currentLevel) > 0 then
        let page1 =
              (if currentLevel > 1 \<and> \<not> anyLevelBelow hs currentLevel
               then pushError (''SEO: Heading hierarchy - h'' @ numberToString currentLevel
                      @ '' used without any parent heading levels'') page
               else page);
            previousLevel = currentLevel - 1
        in if currentLevel > 2 \<and> length (headingsAt hs previousLevel) = 0
              \<and> anyLevelBelow hs previousLevel
           then pushError (''SEO: Heading hierarchy - h'' @ numberToString currentLevel
                  @ '' skips h'' @ numberToString previousLevel @ '' level'') page1
           else page1
      else page)"

definition check_headingHierarchy :: "CheckOptions \<Rightarrow> document \<Rightarrow> PageType \<Rightarrow> PageType" where
  "check_headingHierarchy options doc page =
     (if \<not> seo options then page
      else foldl (\<lambda>p level. checkLevel (headings page) level p) page [1, 2, 3, 4, 5, 6])"

text \<open>
  The loop of the SEO check (check/seo.ts, lines 29 to 33; the same loop is in seo.ts)
  that looks at the level just above only.
\<close>

definition seoHeadingLoop :: "PageType \<Rightarrow> PageType" where
  "seoHeadingLoop page =
     foldl (\<lambda>p i.
        if length (headingsAt (headings p) i) > 0 \<and> length (headingsAt (headings p) (i - 1)) = 0
        then pushError (''SEO: Heading '' @ numberToString i @ '' without heading ''
               @ numberToString (i - 1)) p
        else p) page [2, 3, 4, 5, 6]"

section \<open>The performance check\<close>

definition check_performance :: "CheckOptions \<Rightarrow> document \<Rightarrow> PageType \<Rightarrow> PageType" where
  "check_performance options doc page =
     (case loadingTime page of
        None \<Rightarrow> page
      | Some t \<Rightarrow>
          if t = 0 then page
          else
            let page1 =
                  (if t > 4000
                   then pushError (''Performance: Page load time too slow (''
                          @ intToString (Math_round t) @ ''ms)'') page
                   else if t > 2500
                   then pushWarning (''Performance: Page load time could be improved (''
                          @ intToString (Math_round t) @ ''ms)'') page
                   else page)
            in page1\<lparr>performanceScore :=
                 Some (if t < 1000 then ''excellent''
                       else if t < 2500 then ''good''
                       else if t < 4000 then ''needs-improvement''
                       else ''poor'')\<rparr>)"

section \<open>What the crawler takes from outside\<close>

text \<open>
  \<open>new URL(input, base)\<close> either throws or yields a URL, of which the code reads
  \<open>origin\<close>, \<open>pathname\<close> and \<open>toString()\<close> (the \<open>href\<close>).  \<open>fetch\<close> either rejects or
  resolves with a response; \<open>elapsed\<close> is the time measured around the fetch and the read
  of the body.  \<open>parse\<close> is the HTML parser, \<open>stripStyles\<close> the regular expression
  replacement that check.ts applies to the body before parsing.
\<close>

record URL =
  origin :: string
  pathname :: string
  href :: string

record Response =
  ok :: bool
  status :: nat
  contentType :: "string option"
  bodyText :: string
  elapsed :: rat

record env =
  newURL :: "string \<Rightarrow> string \<Rightarrow> URL option"
  fetch :: "string \<Rightarrow> Response option"
  parse :: "string \<Rightarrow> document"
  stripStyles :: "string \<Rightarrow> string"

datatype exn = InvalidURL string | FetchRejected string

text \<open>
  The state a crawl changes: the store \<open>pages\<close> and, to make fetches observable, the list
  of URLs requested so far.
\<close>

record 'p crawl =
  pages :: "'p store"
  requests :: "string list"

text \<open>
  \<open>pages[key]\<close> read for its truthiness: an own property always holds a record (truthy);
  a key the object inherits from \<open>Object.prototype\<close> is truthy as well.
\<close>

definition objectPrototypeKeys :: "string list" where
  "objectPrototypeKeys =
     [''constructor'', ''__defineGetter__'', ''__defineSetter__'', ''hasOwnProperty'',
      ''__lookupGetter__'', ''__lookupSetter__'', ''isPrototypeOf'', ''propertyIsEnumerable'',
      ''toString'', ''valueOf'', ''__proto__'', ''toLocaleString'']"

definition hasTruthyProp :: "'p store \<Rightarrow> string \<Rightarrow> bool" where
  "hasTruthyProp ps key = (map_of ps key \<noteq> None \<or> key \<in> set objectPrototypeKeys)"

text \<open>\<open>pages[key] = v\<close>: an existing key keeps its place, a new one goes last.\<close>

definition setProp :: "'p store \<Rightarrow> string \<Rightarrow> 'p \<Rightarrow> 'p store" where
  "setProp ps key v =
     (if key \<in> set (map fst ps) then map (\<lambda>kv. if fst kv = key then (key, v) else kv) ps
      else ps @ [(key, v)])"

text \<open>
  An async call runs synchronously up to its first \<open>await\<close> (the fetch): it has returned,
  thrown, or waits for the response.
\<close>

datatype 'r started = Returned 'r | Threw exn | Awaiting URL Response

text \<open>\<open>querySelectorAll('a')\<close>, each \<open>href\<close> attribute, the \<open>null\<close>s dropped.\<close>

definition anchorHrefs :: "document \<Rightarrow> string list" where
  "anchorHrefs doc =
     concat (map (\<lambda>el. case getAttribute (fst el) ''href'' of None \<Rightarrow> [] | Some h \<Rightarrow> [h])
               (querySelectorAll doc (\<lambda>e. tagName e = ''a'')))"

section \<open>check.ts: checkPath and checkAllPages\<close>

type_synonym check = "CheckOptions \<Rightarrow> document \<Rightarrow> PageType \<Rightarrow> PageType"

definition checkPath_start ::
  "env \<Rightarrow> string \<Rightarrow> string \<Rightarrow> PageType crawl \<Rightarrow> string list started \<times> PageType crawl" where
  "checkPath_start w baseUrl p s =
     (if hasTruthyProp (pages s) p \<or> startsWith p ''http'' \<or> endsWith p ''sitemap.xml''
         \<or> endsWith p ''robots.txt''
      then (Returned [], s)
      else
        case newURL w p baseUrl of
          None \<Rightarrow> (Threw (InvalidURL p), s)
        | Some url \<Rightarrow>
            let s1 = s\<lparr>requests := requests s @ [href url]\<rparr>
            in case fetch w (href url) of
                 None \<Rightarrow> (Threw (FetchRejected (href url)), s1)
               | Some data \<Rightarrow> (Awaiting url data, s1))"

text \<open>The loop over the links of a page; \<open>acc\<close> is the local \<open>pagesToCheck\<close>.\<close>

fun collectLinks ::
  "env \<Rightarrow> string \<Rightarrow> PageType store \<Rightarrow> string list \<Rightarrow> string list \<Rightarrow> exn + string list" where
  "collectLinks w baseUrl ps [] acc = Inr acc"
| "collectLinks w baseUrl ps (link # links) acc =
     (case newURL w link baseUrl of
        None \<Rightarrow> Inl (InvalidURL link)
      | Some url \<Rightarrow>
          if origin url = baseUrl \<and> pathname url \<notin> set acc
             \<and> \<not> list_ex (\<lambda>page. path page = href url) (Object_values ps)
          then collectLinks w baseUrl ps links (acc @ [pathname url])
          else collectLinks w baseUrl ps links acc)"

definition htmlContentType :: "Response \<Rightarrow> bool" where
  "htmlContentType data =
     (case contentType data of None \<Rightarrow> False | Some ct \<Rightarrow> str_includes ct ''text/html'')"

definition failedPage :: "URL \<Rightarrow> Response \<Rightarrow> PageType" where
  "failedPage url data =
     \<lparr>path = href url, title = [], headings = emptyHeadings,
      errors = [''HTTP error: '' @ numberToString (status data)], warnings = [],
      loadingTime = Some (elapsed data), performanceScore = None\<rparr>"

definition checkPath_resume ::
  "env \<Rightarrow> check list \<Rightarrow> string \<Rightarrow> string \<Rightarrow> CheckOptions \<Rightarrow> URL \<Rightarrow> Response
     \<Rightarrow> PageType crawl \<Rightarrow> (exn + string list) \<times> PageType crawl" where
  "checkPath_resume w methods baseUrl p options url data s =
     (if \<not> htmlContentType data then (Inr [], s)
      else if \<not> ok data then (Inr [], s\<lparr>pages := setProp (pages s) p (failedPage url data)\<rparr>)
      else
        let doc = parse w (stripStyles w (bodyText data));
            page0 = \<lparr>path = href url, title = trim (docTitle doc), headings = emptyHeadings,
                     errors = [], warnings = [], loadingTime = Some (elapsed data),
                     performanceScore = None\<rparr>;
            page = foldl (\<lambda>pg m. m options doc pg) page0 methods;
            s1 = s\<lparr>pages := setProp (pages s) p page\<rparr>
        in (collectLinks w baseUrl (pages s1) (anchorHrefs doc) [], s1))"

text \<open>One call awaited on its own.\<close>

definition checkPath ::
  "env \<Rightarrow> check list \<Rightarrow> string \<Rightarrow> string \<Rightarrow> CheckOptions \<Rightarrow> PageType crawl
     \<Rightarrow> (exn + string list) \<times> PageType crawl" where
  "checkPath w methods baseUrl p options s =
     (case checkPath_start w baseUrl p s of
        (Returned ls, s1) \<Rightarrow> (Inr ls, s1)
      | (Threw e, s1) \<Rightarrow> (Inl e, s1)
      | (Awaiting url data, s1) \<Rightarrow> checkPath_resume w methods baseUrl p options url data s1)"

section \<open>A batch: Promise.all over the calls of one iteration\<close>

text \<open>
  \<open>batch.map(checkPath)\<close> starts every call in order; each runs to its fetch.  The
  calls then finish in some order.  All that a call does to the store after its fetch
  (its write, and reading the known pages for its links) happens in one synchronous
  stretch; the awaits before that stretch touch the call's own page only.  So a batch is
  determined by the order in which its calls reach that stretch.  This order is a
  parameter: any list of indices, read as the order it induces on the batch.
\<close>

fun startAll ::
  "('a \<Rightarrow> 's \<Rightarrow> 'r started \<times> 's) \<Rightarrow> 'a list \<Rightarrow> 's \<Rightarrow> 'r started list \<times> 's" where
  "startAll start [] s = ([], s)"
| "startAll start (x # xs) s =
     (let (r, s1) = start x s; (rs, s2) = startAll start xs s1 in (r # rs, s2))"

definition arrivalOrder :: "nat list \<Rightarrow> nat \<Rightarrow> nat list" where
  "arrivalOrder ord n =
     arrayFromSet (filter (\<lambda>i. i < n) ord) @ filter (\<lambda>i. i \<notin> set ord) [0..<n]"

fun resumeAll ::
  "('a \<Rightarrow> URL \<Rightarrow> Response \<Rightarrow> 's \<Rightarrow> (exn + 'r) \<times> 's) \<Rightarrow> ('a \<times> 'r started) list \<Rightarrow> nat list
     \<Rightarrow> (exn + 'r) list \<Rightarrow> 's \<Rightarrow> (exn + 'r) list \<times> 's" where
  "resumeAll resume calls [] results s = (results, s)"
| "resumeAll resume calls (i # ord) results s =
     (if i < length calls then
        case snd (calls ! i) of
          Awaiting url data \<Rightarrow>
            (let (r, s1) = resume (fst (calls ! i)) url data s
             in resumeAll resume calls ord (results[i := r]) s1)
        | Returned ls \<Rightarrow> resumeAll resume calls ord results s
        | Threw e \<Rightarrow> resumeAll resume calls ord results s
      else resumeAll resume calls ord results s)"

definition settledAtStart :: "'r \<Rightarrow> 'r started \<Rightarrow> exn + 'r" where
  "settledAtStart pending st =
     (case st of Returned r \<Rightarrow> Inr r | Threw e \<Rightarrow> Inl e | Awaiting url data \<Rightarrow> Inr pending)"

text \<open>
  \<open>Promise.all\<close> is rejected with the rejection that comes first in time.  A call whose
  \<open>new URL(path, baseUrl)\<close> throws is rejected when it is started, before any response;
  among such calls the first of the batch comes first.  Every other rejection (a fetch
  that fails, a link that does not resolve) comes when the call finishes, so these follow
  the order in which the calls finish.
\<close>

definition rejectedAtStart :: "'r started \<Rightarrow> exn list" where
  "rejectedAtStart st =
     (case st of
        Threw (InvalidURL u) \<Rightarrow> [InvalidURL u]
      | Threw (FetchRejected u) \<Rightarrow> []
      | Returned r \<Rightarrow> []
      | Awaiting url data \<Rightarrow> [])"

definition rejectedAtFinish :: "(exn + 'r) list \<Rightarrow> nat \<Rightarrow> exn list" where
  "rejectedAtFinish results i =
     (if i < length results then (case results ! i of Inl e \<Rightarrow> [e] | Inr r \<Rightarrow> []) else [])"

definition rejections :: "'r started list \<Rightarrow> nat list \<Rightarrow> (exn + 'r) list \<Rightarrow> exn list" where
  "rejections sts order results =
     concat (map rejectedAtStart sts) @ concat (map (rejectedAtFinish results) order)"

text \<open>The values of the calls that are fulfilled, in the order of the batch.\<close>

fun fulfilledValues :: "(exn + 'r) list \<Rightarrow> 'r list" where
  "fulfilledValues [] = []"
| "fulfilledValues (Inl e # rs) = fulfilledValues rs"
| "fulfilledValues (Inr r # rs) = r # fulfilledValues rs"

definition promiseAll ::
  "('a \<Rightarrow> 's \<Rightarrow> 'r list started \<times> 's) \<Rightarrow> ('a \<Rightarrow> URL \<Rightarrow> Response \<Rightarrow> 's \<Rightarrow> (exn + 'r list) \<times> 's)
     \<Rightarrow> nat list \<Rightarrow> 'a list \<Rightarrow> 's \<Rightarrow> (exn + 'r list list) \<times> 's" where
  "promiseAll start resume ord batch s =
     (let (sts, s1) = startAll start batch s;
          order = arrivalOrder ord (length batch);
          (results, s2) = resumeAll resume (zip batch sts) order (map (settledAtStart []) sts) s1
      in case rejections sts order results of
           e # es \<Rightarrow> (Inl e, s2)
         | [] \<Rightarrow> (Inr (fulfilledValues results), s2))"

text \<open>
  \<open>pagesToCheck.splice(0, Math.max(options.max, 1))\<close>: the removed entries and the rest.
  \<open>options.max\<close> comes from \<open>Number.parseInt\<close>: an integer, or \<open>NaN\<close> (here \<open>None\<close>), for
  which \<open>Math.max\<close> is \<open>NaN\<close> and \<open>splice\<close> removes nothing.
\<close>

definition splice0 :: "int option \<Rightarrow> 'a list \<Rightarrow> 'a list \<times> 'a list" where
  "splice0 mx xs =
     (let n = (case mx of None \<Rightarrow> 0 | Some m \<Rightarrow> nat (max m 1)) in (take n xs, drop n xs))"

text \<open>The body of the while loop of checkAllPages.\<close>

definition checkAllPages_step ::
  "env \<Rightarrow> check list \<Rightarrow> string \<Rightarrow> CheckOptions \<Rightarrow> int option \<Rightarrow> nat list \<Rightarrow> string list
     \<Rightarrow> PageType crawl \<Rightarrow> (exn + string list) \<times> PageType crawl" where
  "checkAllPages_step w methods baseUrl options mx ord pagesToCheck s =
     (let (batch, rest) = splice0 mx pagesToCheck;
          (found, s1) = promiseAll (checkPath_start w baseUrl)
                          (\<lambda>p. checkPath_resume w methods baseUrl p options) ord batch s
      in case found of
           Inl e \<Rightarrow> (Inl e, s1)
         | Inr lss \<Rightarrow> (Inr (arrayFromSet (rest @ concat lss)), s1))"

text \<open>
  The loop itself may run forever (a site with new paths at every depth, or \<open>NaN\<close> as
  \<open>max\<close>), so it takes fuel: \<open>None\<close> when the fuel runs out.  \<open>sched k\<close> is the arrival
  order of the batch of iteration \<open>k\<close>.
\<close>

fun checkAllPages_loop ::
  "nat \<Rightarrow> env \<Rightarrow> check list \<Rightarrow> string \<Rightarrow> CheckOptions \<Rightarrow> int option \<Rightarrow> (nat \<Rightarrow> nat list) \<Rightarrow> nat
     \<Rightarrow> string list \<Rightarrow> PageType crawl \<Rightarrow> (exn + PageType crawl) option" where
  "checkAllPages_loop 0 w methods baseUrl options mx sched k pagesToCheck s = None"
| "checkAllPages_loop (Suc fuel) w methods baseUrl options mx sched k pagesToCheck s =
     (if length pagesToCheck > 0 then
        case checkAllPages_step w methods baseUrl options mx (sched k) pagesToCheck s of
          (Inl e, s1) \<Rightarrow> Some (Inl e)
        | (Inr next, s1) \<Rightarrow>
            checkAllPages_loop fuel w methods baseUrl options mx sched (Suc k) next s1
      else Some (Inr s))"

definition checkAllPages ::
  "nat \<Rightarrow> env \<Rightarrow> check list \<Rightarrow> string \<Rightarrow> CheckOptions \<Rightarrow> int option \<Rightarrow> (nat \<Rightarrow> nat list)
     \<Rightarrow> (exn + PageType crawl) option" where
  "checkAllPages fuel w methods baseUrl options mx sched =
     checkAllPages_loop fuel w methods baseUrl options mx sched 0 [''/'']
       \<lparr>pages = [], requests = []\<rparr>"

section \<open>seo.ts: the earlier checkPath with its checks inline\<close>

text \<open>
  Up to the fetch, checkPath of seo.ts is the code of check.ts (\<open>checkPath_start\<close>).
  After it there is no content type test; the headings are read from the document in
  every case; then come the SEO block, the social media block and the accessibility
  block.  The first two are parameters here; the third is the code of the accessibility
  check.  The options arrive from the command line with every flag set to a boolean.
\<close>

definition headingTexts :: "document \<Rightarrow> nat \<Rightarrow> string list" where
  "headingTexts doc i =
     map (\<lambda>el. trim (textContent (fst el)))
       (querySelectorAll doc (\<lambda>e. tagName e = ''h'' @ numberToString i))"

definition extractHeadings :: "document \<Rightarrow> Headings" where
  "extractHeadings doc =
     \<lparr>h1 = headingTexts doc 1, h2 = headingTexts doc 2, h3 = headingTexts doc 3,
      h4 = headingTexts doc 4, h5 = headingTexts doc 5, h6 = headingTexts doc 6\<rparr>"

definition checkPath_seo_resume ::
  "env \<Rightarrow> (document \<Rightarrow> PageType \<Rightarrow> PageType) \<Rightarrow> (document \<Rightarrow> PageType \<Rightarrow> PageType)
     \<Rightarrow> (node \<Rightarrow> string) \<Rightarrow> string \<Rightarrow> string \<Rightarrow> CheckOptions \<Rightarrow> URL \<Rightarrow> Response
     \<Rightarrow> PageType crawl \<Rightarrow> (exn + string list) \<times> PageType crawl" where
  "checkPath_seo_resume w seoBlock socialBlock outerHTML baseUrl p options url data s =
     (if \<not> ok data then (Inr [], s\<lparr>pages := setProp (pages s) p (failedPage url data)\<rparr>)
      else
        let doc = parse w (bodyText data);
            page0 = \<lparr>path = href url, title = trim (docTitle doc),
                     headings = extractHeadings doc, errors = [], warnings = [],
                     loadingTime = Some (elapsed data), performanceScore = None\<rparr>;
            page1 = (if seo options then seoBlock doc page0 else page0);
            page2 = (if socialMedia options then socialBlock doc page1 else page1);
            page3 = check_accessibility outerHTML options doc page2;
            s1 = s\<lparr>pages := setProp (pages s) p page3\<rparr>
        in (collectLinks w baseUrl (pages s1) (anchorHrefs doc) [], s1))"

definition checkPath_seo ::
  "env \<Rightarrow> (document \<Rightarrow> PageType \<Rightarrow> PageType) \<Rightarrow> (document \<Rightarrow> PageType \<Rightarrow> PageType)
     \<Rightarrow> (node \<Rightarrow> string) \<Rightarrow> string \<Rightarrow> string \<Rightarrow> CheckOptions \<Rightarrow> PageType crawl
     \<Rightarrow> (exn + string list) \<times> PageType crawl" where
  "checkPath_seo w seoBlock socialBlock outerHTML baseUrl p options s =
     (case checkPath_start w baseUrl p s of
        (Returned ls, s1) \<Rightarrow> (Inr ls, s1)
      | (Threw e, s1) \<Rightarrow> (Inl e, s1)
      | (Awaiting url data, s1) \<Rightarrow>
          checkPath_seo_resume w seoBlock socialBlock outerHTML baseUrl p options url data s1)"

section \<open>The sitemap crawl (sitemap.ts, utils/generateSitemap)\<close>

text \<open>
  A page of the sitemap crawl; \<open>error\<close> is optional in the source and read for its
  truthiness only.  The frontier holds objects, and \<open>new Set\<close> compares objects by
  identity, so a frontier entry is an object reference: an address with its contents.
  Every object literal pushed on a frontier gets a fresh address from \<open>nextRef\<close>.
\<close>

record SitemapPage =
  spath :: string
  depth :: nat
  error :: bool

type_synonym 'a ref = "nat \<times> 'a"

record sitemapCrawl = "SitemapPage crawl" +
  nextRef :: nat

definition setAddObj :: "'a ref list \<Rightarrow> 'a ref \<Rightarrow> 'a ref list" where
  "setAddObj s x = (if fst x \<in> set (map fst s) then s else s @ [x])"

definition arrayFromSetObj :: "'a ref list \<Rightarrow> 'a ref list" where
  "arrayFromSetObj xs = foldl setAddObj [] xs"

definition checkPath_sitemap_start ::
  "env \<Rightarrow> string \<Rightarrow> SitemapPage ref \<Rightarrow> sitemapCrawl
     \<Rightarrow> SitemapPage ref list started \<times> sitemapCrawl" where
  "checkPath_sitemap_start w baseUrl page s =
     (if hasTruthyProp (pages s) (spath (snd page)) \<or> startsWith (spath (snd page)) ''http''
      then (Returned [], s)
      else
        case newURL w (spath (snd page)) baseUrl of
          None \<Rightarrow> (Threw (InvalidURL (spath (snd page))), s)
        | Some url \<Rightarrow>
            let s1 = s\<lparr>requests := requests s @ [href url]\<rparr>
            in case fetch w (href url) of
                 None \<Rightarrow> (Threw (FetchRejected (href url)), s1)
               | Some data \<Rightarrow> (Awaiting url data, s1))"

fun collectLinks_sitemap ::
  "env \<Rightarrow> string \<Rightarrow> SitemapPage store \<Rightarrow> nat \<Rightarrow> string list \<Rightarrow> SitemapPage ref list \<Rightarrow> nat
     \<Rightarrow> exn + (SitemapPage ref list \<times> nat)" where
  "collectLinks_sitemap w baseUrl ps d [] acc fresh = Inr (acc, fresh)"
| "collectLinks_sitemap w baseUrl ps d (link # links) acc fresh =
     (case newURL w link baseUrl of
        None \<Rightarrow> Inl (InvalidURL link)
      | Some linkUrl \<Rightarrow>
          if origin linkUrl = baseUrl
             \<and> \<not> list_ex (\<lambda>page. spath page = href linkUrl) (Object_values ps)
             \<and> \<not> list_ex (\<lambda>page. spath (snd page) = pathname linkUrl) acc
          then collectLinks_sitemap w baseUrl ps d links
                 (acc @ [(fresh, \<lparr>spath = pathname linkUrl, depth = d + 1, error = False\<rparr>)])
                 (Suc fresh)
          else collectLinks_sitemap w baseUrl ps d links acc fresh)"

text \<open>
  \<open>linksOf\<close> reads the links off the body: the \<open>href\<close>s of the parsed document's anchors
  in sitemap.ts, the matches of a regular expression in utils/generateSitemap.
\<close>

definition checkPath_sitemap_resume ::
  "env \<Rightarrow> (string \<Rightarrow> string list) \<Rightarrow> string \<Rightarrow> SitemapPage ref \<Rightarrow> URL \<Rightarrow> Response
     \<Rightarrow> sitemapCrawl \<Rightarrow> (exn + SitemapPage ref list) \<times> sitemapCrawl" where
  "checkPath_sitemap_resume w linksOf baseUrl page url data s =
     (if \<not> ok data
      then (Inr [], s\<lparr>pages := setProp (pages s) (spath (snd page))
                        \<lparr>spath = href url, depth = depth (snd page), error = True\<rparr>\<rparr>)
      else
        let s1 = s\<lparr>pages := setProp (pages s) (spath (snd page))
                      \<lparr>spath = href url, depth = depth (snd page), error = False\<rparr>\<rparr>
        in case collectLinks_sitemap w baseUrl (pages s1) (depth (snd page))
                  (linksOf (bodyText data)) [] (nextRef s1) of
             Inl e \<Rightarrow> (Inl e, s1)
           | Inr (found, fresh) \<Rightarrow> (Inr found, s1\<lparr>nextRef := fresh\<rparr>))"

definition checkPath_sitemap ::
  "env \<Rightarrow> (string \<Rightarrow> string list) \<Rightarrow> string \<Rightarrow> SitemapPage ref \<Rightarrow> sitemapCrawl
     \<Rightarrow> (exn + SitemapPage ref list) \<times> sitemapCrawl" where
  "checkPath_sitemap w linksOf baseUrl page s =
     (case checkPath_sitemap_start w baseUrl page s of
        (Returned ls, s1) \<Rightarrow> (Inr ls, s1)
      | (Threw e, s1) \<Rightarrow> (Inl e, s1)
      | (Awaiting url data, s1) \<Rightarrow> checkPath_sitemap_resume w linksOf baseUrl page url data s1)"

definition checkAllPages_sitemap_step ::
  "env \<Rightarrow> (string \<Rightarrow> string list) \<Rightarrow> string \<Rightarrow> int option \<Rightarrow> nat list \<Rightarrow> SitemapPage ref list
     \<Rightarrow> sitemapCrawl \<Rightarrow> (exn + SitemapPage ref list) \<times> sitemapCrawl" where
  "checkAllPages_sitemap_step w linksOf baseUrl mx ord pagesToCheck s =
     (let (batch, rest) = splice0 mx pagesToCheck;
          (found, s1) = promiseAll (checkPath_sitemap_start w baseUrl)
                          (checkPath_sitemap_resume w linksOf baseUrl) ord batch s
      in case found of
           Inl e \<Rightarrow> (Inl e, s1)
         | Inr lss \<Rightarrow> (Inr (arrayFromSetObj (rest @ concat lss)), s1))"

fun checkAllPages_sitemap_loop ::
  "nat \<Rightarrow> env \<Rightarrow> (string \<Rightarrow> string list) \<Rightarrow> string \<Rightarrow> int option \<Rightarrow> (nat \<Rightarrow> nat list) \<Rightarrow> nat
     \<Rightarrow> SitemapPage ref list \<Rightarrow> sitemapCrawl \<Rightarrow> (exn + sitemapCrawl) option" where
  "checkAllPages_sitemap_loop 0 w linksOf baseUrl mx sched k pagesToCheck s = None"
| "checkAllPages_sitemap_loop (Suc fuel) w linksOf baseUrl mx sched k pagesToCheck s =
     (if length pagesToCheck > 0 then
        case checkAllPages_sitemap_step w linksOf baseUrl mx (sched k) pagesToCheck s of
          (Inl e, s1) \<Rightarrow> Some (Inl e)
        | (Inr next, s1) \<Rightarrow>
            checkAllPages_sitemap_loop fuel w linksOf baseUrl mx sched (Suc k) next s1
      else Some (Inr s))"

definition checkAllPages_sitemap ::
  "nat \<Rightarrow> env \<Rightarrow> (string \<Rightarrow> string list) \<Rightarrow> string \<Rightarrow> int option \<Rightarrow> (nat \<Rightarrow> nat list)
     \<Rightarrow> (exn + sitemapCrawl) option" where
  "checkAllPages_sitemap fuel w linksOf baseUrl mx sched =
     checkAllPages_sitemap_loop fuel w linksOf baseUrl mx sched 0
       [(0, \<lparr>spath = ''/'', depth = 1, error = False\<rparr>)]
       \<lparr>pages = [], requests = [], nextRef = 1\<rparr>"

section \<open>The sitemap document\<close>







definition nl :: string where
  "nl = [CHR 0x0A]"





text \<open>
  The generate action of sitemap.ts (lines 89 to 143) writes another element: the
  priority is \<open>1 / page.depth\<close>, and there is no \<open>changefreq\<close>.  How a number prints is a
  parameter.
\<close>

definition priority_sitemap_ts :: "nat \<Rightarrow> rat" where
  "priority_sitemap_ts d = 1 / of_nat d"

definition renderUrl_sitemap_ts :: "(rat \<Rightarrow> string) \<Rightarrow> string \<Rightarrow> SitemapPage \<Rightarrow> string" where
  "renderUrl_sitemap_ts numberString lastmod page =
     nl @ ''  <url>'' @ nl
     @ ''    <loc>'' @ spath page @ ''</loc>'' @ nl
     @ ''    <lastmod>'' @ lastmod @ ''</lastmod>'' @ nl
     @ ''    <priority>'' @ numberString (priority_sitemap_ts (depth page)) @ ''</priority>'' @ nl
     @ ''  </url>''"

section \<open>The SEO check (check/seo.ts)\<close>

text \<open>
  The width table of the title check.  Every width is a multiple of 1/64 and the table
  has 64 entries, so the sums and the average are exact in the source's doubles as they
  are here.
\<close>

definition sizes :: "(char \<times> rat) list" where
  "sizes =
     [(CHR ''0'', 11.484375), (CHR ''1'', 11.484375), (CHR ''2'', 11.484375),
      (CHR ''3'', 11.484375), (CHR ''4'', 11.484375), (CHR ''5'', 11.484375),
      (CHR ''6'', 11.484375), (CHR ''7'', 11.484375), (CHR ''8'', 11.484375),
      (CHR ''9'', 11.484375), (CHR ''A'', 13.46875), (CHR ''B'', 12.765625),
      (CHR ''C'', 13.09375), (CHR ''D'', 13), (CHR ''E'', 11.25), (CHR ''F'', 10.96875),
      (CHR ''G'', 13.625), (CHR ''H'', 14.140625), (CHR ''I'', 5.84375),
      (CHR ''J'', 11.171875), (CHR ''K'', 12.703125), (CHR ''L'', 10.84375),
      (CHR ''M'', 17.53125), (CHR ''N'', 14.125), (CHR ''O'', 13.8125),
      (CHR ''P'', 12.90625), (CHR ''Q'', 13.8125), (CHR ''R'', 12.765625),
      (CHR ''S'', 12.296875), (CHR ''T'', 12.375), (CHR ''U'', 13.171875),
      (CHR ''V'', 13.078125), (CHR ''W'', 17.5), (CHR ''X'', 12.71875),
      (CHR ''Y'', 12.375), (CHR ''Z'', 12.125), (CHR ''a'', 10.734375),
      (CHR ''b'', 11.265625), (CHR ''c'', 10.4375), (CHR ''d'', 11.28125),
      (CHR ''e'', 10.8125), (CHR ''f'', 6.9375), (CHR ''g'', 11.421875),
      (CHR ''h'', 11.203125), (CHR ''i'', 5.3125), (CHR ''j'', 5.203125),
      (CHR ''k'', 10.6875), (CHR ''l'', 5.3125), (CHR ''m'', 17.328125),
      (CHR ''n'', 11.203125), (CHR ''o'', 11.3125), (CHR ''p'', 11.265625),
      (CHR ''q'', 11.3125), (CHR ''r'', 7.296875), (CHR ''s'', 10.296875),
      (CHR ''t'', 6.765625), (CHR ''u'', 11.203125), (CHR ''v'', 10.109375),
      (CHR ''w'', 14.703125), (CHR ''x'', 10.1875), (CHR ''y'', 10.046875),
      (CHR ''z'', 10.1875), (CHR ''-'', 7.765625), (CHR '' '', 4.984375)]"

definition averageSize :: rat where
  "averageSize = foldl (\<lambda>total width. total + width) 0 (map snd sizes) / of_nat (length sizes)"

definition overflowTitle :: "string \<Rightarrow> bool" where
  "overflowTitle t =
     (foldl (\<lambda>total c. total + (case map_of sizes c of Some width \<Rightarrow> width | None \<Rightarrow> averageSize))
        0 t > 550)"

definition sel_heading :: "nat \<Rightarrow> node \<Rightarrow> bool" where
  "sel_heading i e = (tagName e = ''h'' @ numberToString i)"

definition sel_metaDescription :: "node \<Rightarrow> bool" where
  "sel_metaDescription e = (tagName e = ''meta'' \<and> getAttribute e ''name'' = Some ''description'')"

definition sel_aNoHref :: "node \<Rightarrow> bool" where
  "sel_aNoHref e = (tagName e = ''a'' \<and> \<not> hasAttribute e ''href'')"

definition sel_imgSrc :: "node \<Rightarrow> bool" where
  "sel_imgSrc e = (tagName e = ''img'' \<and> hasAttribute e ''src'')"

text \<open>\<open>heading.split(' ').length\<close>: one more than the number of spaces.\<close>

definition splitBySpaceLength :: "string \<Rightarrow> nat" where
  "splitBySpaceLength h = length (filter (\<lambda>c. c = CHR '' '') h) + 1"

text \<open>
  One turn of the loop over the images.  \<open>new URL(image)\<close> with one argument is the
  parameter \<open>absoluteURL\<close>; \<open>message\<close> is the text of a caught exception.  The image
  fetches are not listed among the \<open>requests\<close> of a crawl, which are the page fetches of
  checkPath.
\<close>

definition checkImage ::
  "env \<Rightarrow> (string \<Rightarrow> URL option) \<Rightarrow> (exn \<Rightarrow> string) \<Rightarrow> PageType \<Rightarrow> string \<Rightarrow> PageType" where
  "checkImage w absoluteURL message page img =
     (case (if startsWith img ''http'' then absoluteURL img else newURL w img (path page)) of
        None \<Rightarrow>
          pushError (''SEO: Image not reachable: '' @ img @ '' - '' @ message (InvalidURL img))
            page
      | Some imgUrl \<Rightarrow>
          (case fetch w (href imgUrl) of
             None \<Rightarrow>
               pushError (''SEO: Image not reachable: '' @ img @ '' - ''
                          @ message (FetchRejected (href imgUrl))) page
           | Some data \<Rightarrow>
               if \<not> ok data then pushError (''SEO: Image not reachable: '' @ href imgUrl) page
               else if \<not> (case contentType data of None \<Rightarrow> False
                            | Some ct \<Rightarrow> startsWith ct ''image'')
               then pushError (''SEO: Not an image: '' @ href imgUrl) page
               else page))"

definition check_seo ::
  "env \<Rightarrow> (string \<Rightarrow> URL option) \<Rightarrow> (exn \<Rightarrow> string) \<Rightarrow> (node \<Rightarrow> string)
     \<Rightarrow> CheckOptions \<Rightarrow> document \<Rightarrow> PageType \<Rightarrow> PageType" where
  "check_seo w absoluteURL message outerHTML options doc page =
     (if \<not> seo options then page
      else
        let p1 = page\<lparr>headings := extractHeadings doc\<rparr>;
            p2 = (if querySelectorAll doc (sel_heading 1) = [] then pushError ''SEO: Missing h1'' p1
                  else if list_all (\<lambda>i. length (headingsAt (headings p1) i) = 0) [1, 2, 3, 4, 5, 6]
                  then pushError ''SEO: No headings'' p1
                  else p1);
            p3 = (if length (h1 (headings p2)) > 1 then pushError ''SEO: Multiple h1'' p2 else p2);
            p4 = seoHeadingLoop p3;
            p5 = (if trim (docTitle doc) = [] then pushError ''SEO: Missing title'' p4
                  else if overflowTitle (docTitle doc) then pushWarning ''SEO: Title too long'' p4
                  else p4);
            p6 = (if querySelectorAll doc sel_metaDescription = []
                  then pushError ''SEO: Missing meta description tag'' p5
                  else p5);
            p7 = pushWarnings
                   (map (\<lambda>heading. ''SEO: H1 too long: '' @ heading)
                      (filter (\<lambda>heading. splitBySpaceLength heading > 12) (h1 (headings p6)))) p6;
            p8 = pushErrors
                   (map (\<lambda>el. ''SEO: Link without href: '' @ getTag outerHTML el)
                      (querySelectorAll doc sel_aNoHref)) p7;
            images = concat (map (\<lambda>el. case getAttribute (fst el) ''src'' of
                                          None \<Rightarrow> [] | Some src \<Rightarrow> [src])
                               (querySelectorAll doc sel_imgSrc))
        in foldl (checkImage w absoluteURL message) p8 images)"


section \<open>A small site and sample pages, for the concrete instances below\<close>

definition demoBase :: string where
  "demoBase = ''https://example.com''"

definition linkDoc :: "string list \<Rightarrow> document" where
  "linkDoc ls =
     \<lparr>docTitle = ''Demo'',
      documentElement =
        Elem ''html'' [] True
          [Elem ''head'' [] True [],
           Elem ''body'' [] True (map (\<lambda>l. Elem ''a'' [(''href'', l)] True [Text ''go'']) ls)]\<rparr>"

definition htmlResponse :: "nat \<Rightarrow> string \<Rightarrow> Response" where
  "htmlResponse code b =
     \<lparr>ok = (200 \<le> code \<and> code \<le> 299), status = code,
      contentType = Some ''text/html; charset=utf-8'', bodyText = b, elapsed = 12\<rparr>"

text \<open>
  The home page links to /a and /b, and both of these link to /c.  /api answers 404 with
  JSON, /logo.png is an image, /sitemap.xml is an XML file, and every other path answers
  404 with a HTML body.
\<close>

definition apiResponse :: Response where
  "apiResponse =
     \<lparr>ok = False, status = 404, contentType = Some ''application/json'', bodyText = ''{}'',
      elapsed = 12\<rparr>"

definition logoResponse :: Response where
  "logoResponse =
     \<lparr>ok = True, status = 200, contentType = Some ''image/png'', bodyText = ''PNG'',
      elapsed = 12\<rparr>"


definition demoEnv :: env where
  "demoEnv =
     \<lparr>newURL = (\<lambda>input base. Some \<lparr>origin = base, pathname = input, href = base @ input\<rparr>),
      fetch = (\<lambda>u.
         if u = ''https://example.com/'' then Some (htmlResponse 200 ''home'')
         else if u = ''https://example.com/a'' then Some (htmlResponse 200 ''a'')
         else if u = ''https://example.com/b'' then Some (htmlResponse 200 ''b'')
         else if u = ''https://example.com/c'' then Some (htmlResponse 200 ''c'')
         else if u = ''https://example.com/api'' then Some apiResponse
         else if u = ''https://example.com/logo.png'' then Some logoResponse
         else if u = ''https://example.com/sitemap.xml''
         then Some \<lparr>ok = True, status = 200, contentType = Some ''application/xml'',
                     bodyText = ''<urlset/>'', elapsed = 12\<rparr>
         else Some (htmlResponse 404 ''nothing here'')),
      parse = (\<lambda>t. linkDoc (if t = ''home'' then [''/a'', ''/b'']
                              else if t = ''a'' \<or> t = ''b'' then [''/c''] else [])),
      stripStyles = (\<lambda>t. t)\<rparr>"

definition demoLinksOf :: "string \<Rightarrow> string list" where
  "demoLinksOf t = anchorHrefs (parse demoEnv t)"

definition demoOptions :: CheckOptions where
  "demoOptions = \<lparr>seo = True, accessibility = True, verbose = False, socialMedia = False\<rparr>"

definition emptyCrawl :: "PageType crawl" where
  "emptyCrawl = \<lparr>pages = [], requests = []\<rparr>"

definition emptySitemapCrawl :: sitemapCrawl where
  "emptySitemapCrawl = \<lparr>pages = [], requests = [], nextRef = 1\<rparr>"

definition pageWith :: "string list \<Rightarrow> string list \<Rightarrow> PageType" where
  "pageWith es ws =
     \<lparr>path = ''https://example.com/'', title = ''Demo'', headings = emptyHeadings,
      errors = es, warnings = ws, loadingTime = None, performanceScore = None\<rparr>"

definition tagOnly :: "node \<Rightarrow> string" where
  "tagOnly e = ''<'' @ tagName e @ ''>''"

definition emptyButton :: node where
  "emptyButton = Elem ''button'' [] True []"

definition buttonDoc :: document where
  "buttonDoc =
     \<lparr>docTitle = ''Demo'',
      documentElement =
        Elem ''html'' [] True [Elem ''head'' [] True [], Elem ''body'' [] True [emptyButton]]\<rparr>"

definition demoUrl :: "string \<Rightarrow> URL" where
  "demoUrl p = \<lparr>origin = demoBase, pathname = p, href = demoBase @ p\<rparr>"

definition sitemapEntry :: "string \<Rightarrow> nat \<Rightarrow> SitemapPage" where
  "sitemapEntry p d = \<lparr>spath = p, depth = d, error = False\<rparr>"

definition timedPage :: "rat \<Rightarrow> PageType" where
  "timedPage t =
     \<lparr>path = ''https://example.com/'', title = ''Demo'', headings = emptyHeadings,
      errors = [], warnings = [], loadingTime = Some t, performanceScore = None\<rparr>"

definition hiddenDiv :: node where
  "hiddenDiv = Elem ''div'' [(''aria-hidden'', ''true'')] True
                 [Elem ''button'' [(''aria-hidden'', ''false'')] True []]"

text \<open>A page with one h1 and one h3, and the site that serves it at the root.\<close>

definition headingDoc :: document where
  "headingDoc =
     \<lparr>docTitle = ''Demo'',
      documentElement =
        Elem ''html'' [] True
          [Elem ''head'' [] True [Elem ''title'' [] True [Text ''Demo'']],
           Elem ''body'' [] True
             [Elem ''h1'' [] True [Text ''Home''], Elem ''h3'' [] True [Text ''Details'']]]\<rparr>"

definition headingEnv :: env where
  "headingEnv = demoEnv\<lparr>parse := (\<lambda>t. headingDoc)\<rparr>"

definition noAbsoluteURL :: "string \<Rightarrow> URL option" where
  "noAbsoluteURL u = None"

definition plainMessage :: "exn \<Rightarrow> string" where
  "plainMessage e = ''failed''"

section \<open>Facts about the Set round trip\<close>

lemma set_foldl_setAdd: "set (foldl setAdd acc xs) = set acc \<union> set xs"
  by (induction xs arbitrary: acc) (auto simp: setAdd_def)

lemma distinct_foldl_setAdd: "distinct acc \<Longrightarrow> distinct (foldl setAdd acc xs)"
  by (induction xs arbitrary: acc) (auto simp: setAdd_def)

lemma length_foldl_setAdd: "length (foldl setAdd acc xs) \<le> length acc + length xs"
proof (induction xs arbitrary: acc)
  case Nil
  then show ?case by simp
next
  case (Cons x xs)
  have "length (foldl setAdd (setAdd acc x) xs) \<le> length (setAdd acc x) + length xs"
    by (rule Cons.IH)
  also have "\<dots> \<le> length acc + length (x # xs)"
    by (simp add: setAdd_def)
  finally show ?case by simp
qed

lemma set_arrayFromSet: "set (arrayFromSet xs) = set xs"
  by (simp add: arrayFromSet_def set_foldl_setAdd)

lemma distinct_arrayFromSet: "distinct (arrayFromSet xs)"
  by (simp add: arrayFromSet_def distinct_foldl_setAdd)

lemma length_arrayFromSet: "length (arrayFromSet xs) \<le> length xs"
  using length_foldl_setAdd [of "[]" xs] by (simp add: arrayFromSet_def)

lemma foldl_concat_acc: "foldl (\<lambda>total p. total @ f p) acc ps = acc @ concat (map f ps)"
  by (induction ps arbitrary: acc) auto

lemma foldl_length_acc:
  "foldl (\<lambda>total p. total + length (f p)) acc ps = acc + sum_list (map (\<lambda>p. length (f p)) ps)"
  by (induction ps arbitrary: acc) auto

lemma length_concat_sum: "length (concat (map f ps)) = sum_list (map (\<lambda>p. length (f p)) ps)"
  by (induction ps) auto

section \<open>Helper facts\<close>

declare numberToString.simps [simp del]

lemma numberToString_levels:
  "numberToString 1 = ''1''" "numberToString 2 = ''2''" "numberToString 3 = ''3''"
  "numberToString 4 = ''4''" "numberToString 5 = ''5''" "numberToString 6 = ''6''"
  by code_simp+


lemma map_of_setProp_same: "map_of (setProp ps key v) key = Some v"
proof (cases "key \<in> set (map fst ps)")
  case True
  have "map_of (map (\<lambda>kv. if fst kv = key then (key, v) else kv) qs) key = Some v"
    if "key \<in> set (map fst qs)" for qs :: "(string \<times> 'a) list"
    using that by (induction qs) auto
  with True show ?thesis by (simp add: setProp_def)
next
  case False
  then have "map_of ps key = None"
    by (simp add: map_of_eq_None_iff)
  with False show ?thesis by (simp add: setProp_def map_add_def)
qed

lemma hasAccessibilityContent_False: "hasAccessibilityContent e False = False"
  by (induction e) (auto simp: list_ex_iff)

lemma notLabelledLink_empty: "notLabelledLink doc = []"
  by (simp add: notLabelledLink_def hasAccessibilityContent_False)













section \<open>The claims\<close>

text \<open>
  C1.  After each batch the frontier holds no candidate twice: no path string twice in the
  checker, no two entries with equal path and depth in the sitemap crawl.  The checker
  keeps its half, strings being compared by value.  The sitemap crawl breaks the other
  half: on the small site, with the home page linking to /a and /b and both of these
  linking to /c, the second batch leaves two entries for /c at depth 3 on the frontier,
  since the Set compares the two objects by identity.
\<close>

theorem sitemap_frontier_keeps_equal_entries:
  "checkAllPages_sitemap_step demoEnv demoLinksOf demoBase (Some 15) []
      [(0, sitemapEntry ''/'' 1)] emptySitemapCrawl =
     (Inr [(1, sitemapEntry ''/a'' 2), (2, sitemapEntry ''/b'' 2)],
      \<lparr>pages = [(''/'', sitemapEntry ''https://example.com/'' 1)],
       requests = [''https://example.com/''], nextRef = 3\<rparr>)
   \<and> checkAllPages_sitemap_step demoEnv demoLinksOf demoBase (Some 15) []
      [(1, sitemapEntry ''/a'' 2), (2, sitemapEntry ''/b'' 2)]
      \<lparr>pages = [(''/'', sitemapEntry ''https://example.com/'' 1)],
       requests = [''https://example.com/''], nextRef = 3\<rparr> =
     (Inr [(3, sitemapEntry ''/c'' 3), (4, sitemapEntry ''/c'' 3)],
      \<lparr>pages = [(''/'', sitemapEntry ''https://example.com/'' 1),
                (''/a'', sitemapEntry ''https://example.com/a'' 2),
                (''/b'', sitemapEntry ''https://example.com/b'' 2)],
       requests = [''https://example.com/'', ''https://example.com/a'',
                   ''https://example.com/b''],
       nextRef = 5\<rparr>)"
  by code_simp

text \<open>
  C2, as amended.  A dispatched path whose fetch resolves with a status that is not a
  success gets a record with the single error \<open>HTTP error: <status>\<close>, an empty title, six
  empty heading lists and no warning, whatever the registered checks are, and no links
  are returned: in seo.ts always, in check.ts when the content type includes text/html.
\<close>

theorem http_error_recorded:
  assumes "\<not> hasTruthyProp (pages s) p" and "\<not> startsWith p ''http''"
    and "\<not> endsWith p ''sitemap.xml''" and "\<not> endsWith p ''robots.txt''"
    and "newURL w p baseUrl = Some url" and "fetch w (href url) = Some data"
    and "\<not> ok data"
  shows "(htmlContentType data \<longrightarrow>
            checkPath w methods baseUrl p options s =
              (Inr [], s\<lparr>requests := requests s @ [href url],
                         pages := setProp (pages s) p (failedPage url data)\<rparr>))
       \<and> checkPath_seo w seoBlock socialBlock outerHTML baseUrl p options s =
              (Inr [], s\<lparr>requests := requests s @ [href url],
                         pages := setProp (pages s) p (failedPage url data)\<rparr>)
       \<and> map_of (setProp (pages s) p (failedPage url data)) p =
            Some \<lparr>path = href url, title = [],
                  headings = \<lparr>h1 = [], h2 = [], h3 = [], h4 = [], h5 = [], h6 = []\<rparr>,
                  errors = [''HTTP error: '' @ numberToString (status data)], warnings = [],
                  loadingTime = Some (elapsed data), performanceScore = None\<rparr>"
  using assms
  by (simp add: checkPath_def checkPath_seo_def checkPath_start_def checkPath_resume_def
      checkPath_seo_resume_def map_of_setProp_same failedPage_def emptyHeadings_def)

lemma demo_missing_facts:
  "\<not> hasTruthyProp (pages emptyCrawl) ''/missing''" "\<not> startsWith ''/missing'' ''http''"
  "\<not> endsWith ''/missing'' ''sitemap.xml''" "\<not> endsWith ''/missing'' ''robots.txt''"
  "newURL demoEnv ''/missing'' demoBase = Some (demoUrl ''/missing'')"
  "fetch demoEnv (href (demoUrl ''/missing'')) = Some (htmlResponse 404 ''nothing here'')"
  "\<not> ok (htmlResponse 404 ''nothing here'')"
  "htmlContentType (htmlResponse 404 ''nothing here'')"
  "numberToString (status (htmlResponse 404 ''nothing here'')) = ''404''"
  by code_simp+

theorem http_error_recorded_witness:
  "checkPath demoEnv [check_headingHierarchy, check_performance] demoBase ''/missing''
       demoOptions emptyCrawl =
     (Inr [],
      \<lparr>pages = [(''/missing'',
                  \<lparr>path = ''https://example.com/missing'', title = [],
                   headings = \<lparr>h1 = [], h2 = [], h3 = [], h4 = [], h5 = [], h6 = []\<rparr>,
                   errors = [''HTTP error: 404''], warnings = [], loadingTime = Some 12,
                   performanceScore = None\<rparr>)],
       requests = [''https://example.com/missing'']\<rparr>)"
  using http_error_recorded [OF demo_missing_facts(1-7),
      of "[check_headingHierarchy, check_performance]" demoOptions "\<lambda>d p. p" "\<lambda>d p. p" tagOnly]
    demo_missing_facts(8,9)
  by (simp add: emptyCrawl_def setProp_def failedPage_def demoUrl_def demoBase_def
      htmlResponse_def emptyHeadings_def)

theorem http_error_non_html_counterexample:
  "fetch demoEnv ''https://example.com/api'' = Some apiResponse
   \<and> \<not> ok apiResponse \<and> status apiResponse = 404
   \<and> checkPath demoEnv [] demoBase ''/api'' demoOptions emptyCrawl =
       (Inr [], \<lparr>pages = [], requests = [''https://example.com/api'']\<rparr>)"
  by code_simp

text \<open>
  C3.  A dispatched path whose response has a content type header that does not include
  text/html: the checker's checkPath returns no links and leaves the store as it was,
  whatever the status.  Only the request itself is added to the state.
\<close>

theorem non_html_ignored:
  assumes "\<not> hasTruthyProp (pages s) p" and "\<not> startsWith p ''http''"
    and "\<not> endsWith p ''sitemap.xml''" and "\<not> endsWith p ''robots.txt''"
    and "newURL w p baseUrl = Some url" and "fetch w (href url) = Some data"
    and "contentType data = Some ct" and "\<not> str_includes ct ''text/html''"
  shows "checkPath w methods baseUrl p options s =
           (Inr [], s\<lparr>requests := requests s @ [href url]\<rparr>)
       \<and> pages (snd (checkPath w methods baseUrl p options s)) = pages s"
  using assms
  by (simp add: checkPath_def checkPath_start_def checkPath_resume_def htmlContentType_def)

lemma demo_logo_facts:
  "\<not> hasTruthyProp (pages emptyCrawl) ''/logo.png''" "\<not> startsWith ''/logo.png'' ''http''"
  "\<not> endsWith ''/logo.png'' ''sitemap.xml''" "\<not> endsWith ''/logo.png'' ''robots.txt''"
  "newURL demoEnv ''/logo.png'' demoBase = Some (demoUrl ''/logo.png'')"
  "fetch demoEnv (href (demoUrl ''/logo.png'')) = Some logoResponse"
  "contentType logoResponse = Some ''image/png''"
  "\<not> str_includes ''image/png'' ''text/html''"
  by code_simp+

theorem non_html_ignored_witness:
  "ok logoResponse
   \<and> checkPath demoEnv [check_performance] demoBase ''/logo.png'' demoOptions emptyCrawl =
       (Inr [], \<lparr>pages = [], requests = [''https://example.com/logo.png'']\<rparr>)"
  using non_html_ignored [OF demo_logo_facts, of "[check_performance]" demoOptions]
  by (simp add: emptyCrawl_def demoUrl_def demoBase_def logoResponse_def)

text \<open>
  C4.  checkPath returns at once, with no links, no fetch and no write to the store,
  when the path is a key of the store or starts with http; so do check.ts and seo.ts
  when the path ends with sitemap.xml or robots.txt.  The sitemap crawl has no such
  exclusion: whatever the path ends with, once it is neither known nor starts with http
  and resolves to a URL, that URL is requested.
\<close>

theorem checkPath_skip_rule:
  "(map_of (pages s) p \<noteq> None \<or> startsWith p ''http'' \<or> endsWith p ''sitemap.xml''
      \<or> endsWith p ''robots.txt''
    \<longrightarrow> checkPath w methods baseUrl p options s = (Inr [], s)
        \<and> checkPath_seo w seoBlock socialBlock outerHTML baseUrl p options s = (Inr [], s))
   \<and> (map_of (pages t) (spath (snd page)) \<noteq> None \<or> startsWith (spath (snd page)) ''http''
    \<longrightarrow> checkPath_sitemap w linksOf baseUrl page t = (Inr [], t))
   \<and> (\<not> hasTruthyProp (pages t) (spath (snd page)) \<and> \<not> startsWith (spath (snd page)) ''http''
        \<and> newURL w (spath (snd page)) baseUrl = Some url
    \<longrightarrow> requests (snd (checkPath_sitemap w linksOf baseUrl page t)) = requests t @ [href url])"
proof (intro conjI impI)
  assume "map_of (pages s) p \<noteq> None \<or> startsWith p ''http'' \<or> endsWith p ''sitemap.xml''
      \<or> endsWith p ''robots.txt''"
  then have g: "checkPath_start w baseUrl p s = (Returned [], s)"
    by (auto simp: checkPath_start_def hasTruthyProp_def)
  show "checkPath w methods baseUrl p options s = (Inr [], s)"
    by (simp add: checkPath_def g)
  show "checkPath_seo w seoBlock socialBlock outerHTML baseUrl p options s = (Inr [], s)"
    by (simp add: checkPath_seo_def g)
next
  assume "map_of (pages t) (spath (snd page)) \<noteq> None \<or> startsWith (spath (snd page)) ''http''"
  then have "checkPath_sitemap_start w baseUrl page t = (Returned [], t)"
    by (auto simp: checkPath_sitemap_start_def hasTruthyProp_def)
  then show "checkPath_sitemap w linksOf baseUrl page t = (Inr [], t)"
    by (simp add: checkPath_sitemap_def)
next
  assume a: "\<not> hasTruthyProp (pages t) (spath (snd page)) \<and> \<not> startsWith (spath (snd page)) ''http''
        \<and> newURL w (spath (snd page)) baseUrl = Some url"
  show "requests (snd (checkPath_sitemap w linksOf baseUrl page t)) = requests t @ [href url]"
  proof (cases "fetch w (href url)")
    case None
    with a show ?thesis
      by (simp add: checkPath_sitemap_def checkPath_sitemap_start_def)
  next
    case (Some data)
    with a show ?thesis
      by (simp add: checkPath_sitemap_def checkPath_sitemap_start_def Let_def
          checkPath_sitemap_resume_def split: sum.splits prod.splits)
  qed
qed

lemma demo_sitemap_xml_facts:
  "endsWith ''/sitemap.xml'' ''sitemap.xml''"
  "\<not> hasTruthyProp (pages emptySitemapCrawl) (spath (snd (7::nat, sitemapEntry ''/sitemap.xml'' 2)))"
  "\<not> startsWith (spath (snd (7::nat, sitemapEntry ''/sitemap.xml'' 2))) ''http''"
  "newURL demoEnv (spath (snd (7::nat, sitemapEntry ''/sitemap.xml'' 2))) demoBase
     = Some (demoUrl ''/sitemap.xml'')"
  "map_of (pages \<lparr>pages = [(''/a'', sitemapEntry ''https://example.com/a'' 2)],
                   requests = [''https://example.com/a''], nextRef = 3\<rparr>)
          (spath (snd (9::nat, sitemapEntry ''/a'' 3))) \<noteq> None"
  by code_simp+

theorem checkPath_skip_rule_witness:
  "checkPath demoEnv [check_performance] demoBase ''/sitemap.xml'' demoOptions emptyCrawl =
     (Inr [], emptyCrawl)
   \<and> checkPath_seo demoEnv (\<lambda>d p. p) (\<lambda>d p. p) tagOnly demoBase ''/sitemap.xml'' demoOptions
       emptyCrawl = (Inr [], emptyCrawl)
   \<and> checkPath_sitemap demoEnv demoLinksOf demoBase (9, sitemapEntry ''/a'' 3)
       \<lparr>pages = [(''/a'', sitemapEntry ''https://example.com/a'' 2)],
        requests = [''https://example.com/a''], nextRef = 3\<rparr> =
     (Inr [], \<lparr>pages = [(''/a'', sitemapEntry ''https://example.com/a'' 2)],
               requests = [''https://example.com/a''], nextRef = 3\<rparr>)
   \<and> requests (snd (checkPath_sitemap demoEnv demoLinksOf demoBase
                      (7, sitemapEntry ''/sitemap.xml'' 2) emptySitemapCrawl)) =
       [''https://example.com/sitemap.xml'']"
  using checkPath_skip_rule [of emptyCrawl "''/sitemap.xml''" demoEnv "[check_performance]"
      demoBase demoOptions "\<lambda>d p. p" "\<lambda>d p. p" tagOnly
      "\<lparr>pages = [(''/a'', sitemapEntry ''https://example.com/a'' 2)],
        requests = [''https://example.com/a''], nextRef = 3\<rparr>"
      "(9, sitemapEntry ''/a'' 3)" demoLinksOf]
    checkPath_skip_rule [of emptyCrawl "''/sitemap.xml''" demoEnv "[check_performance]"
      demoBase demoOptions "\<lambda>d p. p" "\<lambda>d p. p" tagOnly emptySitemapCrawl
      "(7, sitemapEntry ''/sitemap.xml'' 2)" demoLinksOf "demoUrl ''/sitemap.xml''"]
    demo_sitemap_xml_facts
  by (simp add: emptySitemapCrawl_def demoUrl_def demoBase_def)





text \<open>
  C6.  The report's global error list is the union of all pages' error lists with equal
  strings kept once (in the order of first occurrence); the total error count is the sum
  of the lengths of the pages' error lists, so it is at least the length of the global
  list.  The same holds for the warnings.
\<close>

theorem report_aggregation:
  "uniqueErrors ps = arrayFromSet (concat (map errors (Object_values ps)))
   \<and> set (uniqueErrors ps) = (\<Union>page \<in> set (Object_values ps). set (errors page))
   \<and> distinct (uniqueErrors ps)
   \<and> totalErrors ps = sum_list (map (\<lambda>page. length (errors page)) (Object_values ps))
   \<and> length (uniqueErrors ps) \<le> totalErrors ps
   \<and> uniqueWarnings ps = arrayFromSet (concat (map warnings (Object_values ps)))
   \<and> set (uniqueWarnings ps) = (\<Union>page \<in> set (Object_values ps). set (warnings page))
   \<and> distinct (uniqueWarnings ps)
   \<and> totalWarnings ps = sum_list (map (\<lambda>page. length (warnings page)) (Object_values ps))
   \<and> length (uniqueWarnings ps) \<le> totalWarnings ps"
proof -
  have e: "uniqueErrors ps = arrayFromSet (concat (map errors (Object_values ps)))"
    by (simp add: uniqueErrors_def foldl_concat_acc)
  have w: "uniqueWarnings ps = arrayFromSet (concat (map warnings (Object_values ps)))"
    by (simp add: uniqueWarnings_def foldl_concat_acc)
  have te: "totalErrors ps = sum_list (map (\<lambda>page. length (errors page)) (Object_values ps))"
    by (simp add: totalErrors_def foldl_length_acc)
  have tw: "totalWarnings ps = sum_list (map (\<lambda>page. length (warnings page)) (Object_values ps))"
    by (simp add: totalWarnings_def foldl_length_acc)
  have le: "length (uniqueErrors ps) \<le> totalErrors ps"
    unfolding e te using length_arrayFromSet [of "concat (map errors (Object_values ps))"]
    by (simp add: length_concat_sum)
  have lw: "length (uniqueWarnings ps) \<le> totalWarnings ps"
    unfolding w tw using length_arrayFromSet [of "concat (map warnings (Object_values ps))"]
    by (simp add: length_concat_sum)
  have se: "set (uniqueErrors ps) = (\<Union>page \<in> set (Object_values ps). set (errors page))"
    unfolding e by (simp add: set_arrayFromSet)
  have sw: "set (uniqueWarnings ps) = (\<Union>page \<in> set (Object_values ps). set (warnings page))"
    unfolding w by (simp add: set_arrayFromSet)
  show ?thesis
    using e w te tw le lw se sw distinct_arrayFromSet by metis
qed

theorem report_aggregation_witness:
  "uniqueErrors [(''/'', pageWith [''a'', ''b''] [''w'']), (''/x'', pageWith [''b'', ''a'', ''c''] [''w''])]
     = [''a'', ''b'', ''c'']
   \<and> totalErrors [(''/'', pageWith [''a'', ''b''] [''w'']), (''/x'', pageWith [''b'', ''a'', ''c''] [''w''])]
     = 5
   \<and> uniqueWarnings [(''/'', pageWith [''a'', ''b''] [''w'']), (''/x'', pageWith [''b'', ''a'', ''c''] [''w''])]
     = [''w'']
   \<and> totalWarnings [(''/'', pageWith [''a'', ''b''] [''w'']), (''/x'', pageWith [''b'', ''a'', ''c''] [''w''])]
     = 2"
  using report_aggregation
    [of "[(''/'', pageWith [''a'', ''b''] [''w'']), (''/x'', pageWith [''b'', ''a'', ''c''] [''w''])]"]
  by (simp add: Object_values_def pageWith_def arrayFromSet_def setAdd_def)





text \<open>With the SEO check registered first, checkPath stores the three findings.\<close>

lemma checkPath_seo_then_hierarchy:
  "checkPath headingEnv
     [check_seo headingEnv noAbsoluteURL plainMessage tagOnly, check_headingHierarchy]
     demoBase ''/'' demoOptions emptyCrawl =
   (Inr [],
    \<lparr>pages =
       [(''/'',
         \<lparr>path = ''https://example.com/'', title = ''Demo'',
          headings = \<lparr>h1 = [''Home''], h2 = [], h3 = [''Details''], h4 = [], h5 = [], h6 = []\<rparr>,
          errors = [''SEO: Heading 3 without heading 2'', ''SEO: Missing meta description tag'',
                    ''SEO: Heading hierarchy - h3 skips h2 level''],
          warnings = [], loadingTime = Some 12, performanceScore = None\<rparr>)],
     requests = [''https://example.com/'']\<rparr>)"
  by code_simp

text \<open>
  C8.  The claim: an interactive element without a label and without text, not hidden,
  gets a "Not labelled link/button" error.  The code never records one.  The filter calls
  \<open>hasAccessibilityContent(e, false)\<close>, which answers \<open>false\<close> on every path
  (\<open>hasAccessibilityContent_False\<close>), so the list of elements to report is always empty
  (\<open>notLabelledLink_empty\<close>).  Here at a document whose body holds one empty button.
\<close>

theorem empty_button_not_reported:
  "querySelectorAll buttonDoc sel_notLabelled =
     [(emptyButton,
       [Elem ''body'' [] True [emptyButton],
        Elem ''html'' [] True [Elem ''head'' [] True [], Elem ''body'' [] True [emptyButton]]])]
   \<and> isHTMLElement (emptyButton, [])
   \<and> notAriaHidden emptyButton
       [Elem ''body'' [] True [emptyButton],
        Elem ''html'' [] True [Elem ''head'' [] True [], Elem ''body'' [] True [emptyButton]]]
   \<and> getAttribute emptyButton ''aria-label'' = None
   \<and> textContent emptyButton = []
   \<and> children emptyButton = []
   \<and> accessibility demoOptions
   \<and> errors (check_accessibility tagOnly demoOptions buttonDoc (pageWith [] [])) = []"
  by code_simp





text \<open>
  C10.  \<open>notAriaHidden\<close> answers \<open>false\<close> exactly when the element or one of its ancestors
  has an \<open>aria-hidden\<close> attribute equal to \<open>true\<close> or to the empty string.  So the empty
  string hides, and \<open>aria-hidden="false"\<close> on the element does not stop the walk: an
  ancestor with \<open>true\<close> still hides it.
\<close>

theorem notAriaHidden_iff:
  "(notAriaHidden e anc \<longleftrightarrow>
      (\<forall>x \<in> set (e # anc). getAttribute x ''aria-hidden'' \<noteq> Some ''true''
                             \<and> getAttribute x ''aria-hidden'' \<noteq> Some []))
   \<and> (getAttribute e ''aria-hidden'' = Some [] \<longrightarrow> \<not> notAriaHidden e anc)
   \<and> (getAttribute e ''aria-hidden'' = Some ''false'' \<and> a \<in> set anc
        \<and> getAttribute a ''aria-hidden'' = Some ''true'' \<longrightarrow> \<not> notAriaHidden e anc)"
proof -
  have iff: "notAriaHidden e anc \<longleftrightarrow>
      (\<forall>x \<in> set (e # anc). getAttribute x ''aria-hidden'' \<noteq> Some ''true''
                             \<and> getAttribute x ''aria-hidden'' \<noteq> Some [])" for e anc
    by (induction anc arbitrary: e) auto
  show ?thesis
    unfolding iff by auto
qed

lemma demo_hidden_facts:
  "getAttribute (Elem ''button'' [(''aria-hidden'', ''false'')] True []) ''aria-hidden'' = Some ''false''"
  "hiddenDiv \<in> set [hiddenDiv, Elem ''body'' [] True [hiddenDiv]]"
  "getAttribute hiddenDiv ''aria-hidden'' = Some ''true''"
  "getAttribute (Elem ''svg'' [(''aria-hidden'', [])] True []) ''aria-hidden'' = Some []"
  by code_simp+

theorem notAriaHidden_iff_witness:
  "\<not> notAriaHidden (Elem ''button'' [(''aria-hidden'', ''false'')] True [])
        [hiddenDiv, Elem ''body'' [] True [hiddenDiv]]
   \<and> \<not> notAriaHidden (Elem ''svg'' [(''aria-hidden'', [])] True []) [Elem ''body'' [] True []]
   \<and> notAriaHidden (Elem ''button'' [(''aria-hidden'', ''false'')] True [])
        [Elem ''body'' [] True []]"
  using notAriaHidden_iff [of "Elem ''button'' [(''aria-hidden'', ''false'')] True []"
      "[hiddenDiv, Elem ''body'' [] True [hiddenDiv]]" hiddenDiv]
    notAriaHidden_iff [of "Elem ''svg'' [(''aria-hidden'', [])] True []"
      "[Elem ''body'' [] True []]" hiddenDiv]
    notAriaHidden_iff [of "Elem ''button'' [(''aria-hidden'', ''false'')] True []"
      "[Elem ''body'' [] True []]" hiddenDiv]
    demo_hidden_facts
  by simp

section \<open>Further facts about the crawl loops\<close>

text \<open>
  The checker's frontier holds no path twice after an iteration of the loop; on the small
  site its second batch leaves /c once.
\<close>

theorem checker_frontier_distinct:
  "checkAllPages_step w methods baseUrl options mx ord pagesToCheck s = (Inr next, s1)
     \<Longrightarrow> distinct next"
  by (auto simp: checkAllPages_step_def distinct_arrayFromSet split: prod.splits sum.splits)

lemma demo_checker_step:
  "checkAllPages_step demoEnv [] demoBase demoOptions (Some 15) [] [''/a'', ''/b'']
     \<lparr>pages = [(''/'', timedPage 12)], requests = [''https://example.com/'']\<rparr>
   = (Inr [''/c''],
      \<lparr>pages = [(''/'', timedPage 12),
                (''/a'', (timedPage 12)\<lparr>path := ''https://example.com/a''\<rparr>),
                (''/b'', (timedPage 12)\<lparr>path := ''https://example.com/b''\<rparr>)],
       requests = [''https://example.com/'', ''https://example.com/a'',
                   ''https://example.com/b'']\<rparr>)"
  by code_simp

theorem checker_frontier_distinct_witness:
  "distinct [''/c'']
   \<and> fst (checkAllPages_step demoEnv [] demoBase demoOptions (Some 15) [] [''/a'', ''/b'']
            \<lparr>pages = [(''/'', timedPage 12)], requests = [''https://example.com/'']\<rparr>)
     = Inr [''/c'']"
  using checker_frontier_distinct [OF demo_checker_step] demo_checker_step
  by simp

text \<open>
  In the sitemap crawl the Set round trip removes nothing from a frontier whose entries
  are different objects.
\<close>

lemma foldl_setAddObj_distinct:
  "distinct (map fst (acc @ xs)) \<Longrightarrow> foldl setAddObj acc xs = acc @ xs"
proof (induction xs arbitrary: acc)
  case Nil
  then show ?case by simp
next
  case (Cons x xs)
  from Cons.prems have "fst x \<notin> set (map fst acc)" by auto
  then have "setAddObj acc x = acc @ [x]" by (simp add: setAddObj_def)
  moreover from Cons.prems have "distinct (map fst ((acc @ [x]) @ xs))" by simp
  ultimately show ?case using Cons.IH [of "acc @ [x]"] by simp
qed

lemma arrayFromSetObj_distinct_refs:
  "distinct (map fst xs) \<Longrightarrow> arrayFromSetObj xs = xs"
  using foldl_setAddObj_distinct [of "[]" xs] by (simp add: arrayFromSetObj_def)

text \<open>
  The sitemap crawl of the small site ends after three batches; the two entries for /c
  are dispatched together, so /c is requested twice.
\<close>

lemma sitemap_crawl_requests_twice:
  "checkAllPages_sitemap 4 demoEnv demoLinksOf demoBase (Some 15) (\<lambda>k. []) =
     Some (Inr \<lparr>pages = [(''/'', sitemapEntry ''https://example.com/'' 1),
                         (''/a'', sitemapEntry ''https://example.com/a'' 2),
                         (''/b'', sitemapEntry ''https://example.com/b'' 2),
                         (''/c'', sitemapEntry ''https://example.com/c'' 3)],
                requests = [''https://example.com/'', ''https://example.com/a'',
                            ''https://example.com/b'', ''https://example.com/c'',
                            ''https://example.com/c''],
                nextRef = 5\<rparr>)"
  by code_simp

text \<open>
  The loop of the SEO check that compares a level with the one just above also reports
  h3 on a page with headings at h1 and h3 only.
\<close>

lemma seoHeadingLoop_h1_h3:
  assumes "h1 (headings page) \<noteq> []" and "h2 (headings page) = []" and "h3 (headings page) \<noteq> []"
    and "h4 (headings page) = []" and "h5 (headings page) = []" and "h6 (headings page) = []"
  shows "seoHeadingLoop page = page\<lparr>errors := errors page @ [''SEO: Heading 3 without heading 2'']\<rparr>"
  using assms
  by (simp add: seoHeadingLoop_def headingsAt_def pushError_def numberToString_levels)

end
